theory Spec2Isabelle
  imports Complex_Main "HOL-Library.Word" "HOL-Library.Char_ord" "HOL-Library.List_Lexorder"
begin

section \<open>LuminaChain wallet core: a shallow embedding\<close>

text \<open>
  The development follows \<^verbatim>\<open>src/core/transaction.cpp\<close>, \<^verbatim>\<open>src/core/wallet.cpp\<close> and the
  network synchroniser (\<^verbatim>\<open>NetworkSync\<close>). Member functions become functions on a record
  of the object's fields that return the updated record. What a member function does
  beyond changing its object is returned as a list of events: the calls to the process
  wide \<^verbatim>\<open>Logger\<close>, the invocations of the progress callback, and (for the synchroniser)
  the calls of \<^verbatim>\<open>processBlocks\<close>.

  Floating-point numbers. A C++ \<^verbatim>\<open>double\<close> or \<^verbatim>\<open>float\<close> is the real number it stands
  for; comparisons are the exact ones. Every arithmetic result is rounded as IEEE 754
  prescribes for binary64 and binary32 (to the nearest representable number, ties to
  the even one): \<open>round_double\<close> and \<open>round_float\<close> below. Infinities, NaN, the sign
  of zero and overflow beyond the largest finite number are not modelled. The text form
  of a \<^verbatim>\<open>double\<close> (\<^verbatim>\<open>operator<<\<close>, \<^verbatim>\<open>std::to_string\<close>, \<^verbatim>\<open>std::stod\<close>) is not
  defined here at all: the three library functions are fields of the environment record
  \<open>sys\<close>, and every theorem that does not name a concrete environment holds for any
  choice of them.
\<close>

subsection \<open>Rounding to binary64 and binary32\<close>

text \<open>
  \<open>bit_length n\<close> is the number of binary digits of \<open>n\<close>. \<open>round_even\<close> rounds a
  real number to the nearest integer, a tie to the even neighbour.

  \<open>round_binary p s x\<close> rounds \<open>x\<close> to a floating-point format with \<open>p\<close> bits of
  precision whose smallest positive number is \<open>2\<^sup>-\<^sup>s\<close>. Counted in units of \<open>2\<^sup>-\<^sup>s\<close>
  the magnitude is \<open>y\<close>; a number of the format has at most \<open>p\<close> significant bits, so
  with \<open>k\<close> bits too many in the integer part of \<open>y\<close> the result is a multiple of
  \<open>2\<^sup>k\<close> units (the subtraction on \<open>nat\<close> stops at 0, so \<open>k = 0\<close> up to the
  first binade of normal numbers, where the units themselves are the grid). For binary64 \<open>p = 53\<close> and \<open>s = 1074\<close>, for binary32 \<open>p = 24\<close> and
  \<open>s = 149\<close>.
\<close>

function bit_length :: "nat \<Rightarrow> nat" where
  "bit_length n = (if n = 0 then 0 else Suc (bit_length (n div 2)))"
  by pat_completeness auto
termination
proof (relation "measure id")
  show "wf (measure id)"
    by simp
next
  fix n :: nat
  assume "n \<noteq> 0"
  then show "(n div 2, n) \<in> measure id"
    by simp
qed

declare bit_length.simps [simp del]

definition round_even :: "real \<Rightarrow> int" where
  "round_even y =
     (let f = \<lfloor>y\<rfloor>; r = y - of_int f
      in if r < 1 / 2 then f else if 1 / 2 < r then f + 1
         else if even f then f else f + 1)"

definition round_binary :: "nat \<Rightarrow> nat \<Rightarrow> real \<Rightarrow> real" where
  "round_binary p s x =
     (let y = \<bar>x\<bar> * 2 ^ s;
          k = bit_length (nat \<lfloor>y\<rfloor>) - p;
          m = round_even (y / 2 ^ k)
      in sgn x * (of_int m * 2 ^ k / 2 ^ s))"

definition round_double :: "real \<Rightarrow> real" where
  "round_double = round_binary 53 1074"

definition round_float :: "real \<Rightarrow> real" where
  "round_float = round_binary 24 149"

subsection \<open>Environment and events\<close>

type_synonym amount = real

record sys =
  time_now :: int
  random_hex :: "nat \<Rightarrow> nat"
  to_string_double :: "amount \<Rightarrow> string"
  put_double :: "amount \<Rightarrow> string"
  stod :: "string \<Rightarrow> string + amount"

text \<open>
  \<open>time_now\<close> is the value of \<^verbatim>\<open>std::time(nullptr)\<close>; \<open>random_hex i\<close> is the
  \<open>i\<close>-th value drawn from \<^verbatim>\<open>uniform_int_distribution<>(0, 15)\<close> in
  \<^verbatim>\<open>Transaction::generateId\<close>; \<open>stod s = Inl msg\<close> stands for \<^verbatim>\<open>std::stod\<close> throwing an
  exception whose \<^verbatim>\<open>what()\<close> is \<open>msg\<close>.
\<close>

datatype LogLevel = DEBUG | INFO | WARNING | ERROR | CRITICAL

datatype event =
    Log LogLevel string
  | Callback real string
  | ProcessBlocks "64 word" "64 word"

subsection \<open>Transaction (transaction.cpp)\<close>

datatype TransactionStatus = PENDING | CONFIRMED | FAILED

record Transaction =
  m_id :: string
  m_fromAddress :: string
  m_toAddress :: string
  m_amount :: amount
  m_tokenSymbol :: string
  m_timestamp :: int
  m_status :: TransactionStatus
  m_signature :: string

definition hexChars :: string where
  "hexChars = ''0123456789abcdef''"

text \<open>
  The loop of \<^verbatim>\<open>generateId\<close>, from index \<open>i\<close> with \<open>n\<close> rounds to go: one hexadecimal
  digit per round, and a dash after the digits 7, 11, 15 and 19. The distribution only
  yields 0..15, which \<open>mod 16\<close> records.
\<close>

fun uuid_from :: "sys \<Rightarrow> nat \<Rightarrow> nat \<Rightarrow> string" where
  "uuid_from S i 0 = []"
| "uuid_from S i (Suc n) =
     (hexChars ! (random_hex S i mod 16)) #
     (if i = 7 \<or> i = 11 \<or> i = 15 \<or> i = 19 then CHR ''-'' # uuid_from S (Suc i) n
      else uuid_from S (Suc i) n)"

definition generateId :: "sys \<Rightarrow> string" where
  "generateId S = ''TX-'' @ uuid_from S 0 32"

definition Transaction_new ::
  "sys \<Rightarrow> string \<Rightarrow> string \<Rightarrow> amount \<Rightarrow> string \<Rightarrow> Transaction \<times> event list" where
  "Transaction_new S fromAddress toAddress amt tokenSymbol =
     (let tid = generateId S in
      (\<lparr>m_id = tid, m_fromAddress = fromAddress, m_toAddress = toAddress,
        m_amount = amt, m_tokenSymbol = tokenSymbol, m_timestamp = time_now S,
        m_status = PENDING, m_signature = []\<rparr>,
       [Log INFO (''Created new transaction: '' @ tid)]))"

definition statusStr :: "TransactionStatus \<Rightarrow> string" where
  "statusStr st = (case st of PENDING \<Rightarrow> ''PENDING'' | CONFIRMED \<Rightarrow> ''CONFIRMED''
                   | FAILED \<Rightarrow> ''FAILED'')"

definition setStatus :: "TransactionStatus \<Rightarrow> Transaction \<Rightarrow> Transaction \<times> event list" where
  "setStatus st t =
     (t\<lparr>m_status := st\<rparr>,
      [Log INFO (''Transaction '' @ m_id t @ '' status changed to '' @ statusStr st)])"

definition sign :: "string \<Rightarrow> Transaction \<Rightarrow> bool \<times> Transaction \<times> event list" where
  "sign privateKey t =
     (True, t\<lparr>m_signature := ''SIGNATURE_'' @ m_id t\<rparr>,
      [Log INFO (''Transaction '' @ m_id t @ '' signed successfully'')])"

definition verifySignature :: "Transaction \<Rightarrow> bool" where
  "verifySignature t = (m_signature t \<noteq> [] \<and> take 10 (m_signature t) = ''SIGNATURE_'')"

subsection \<open>Wallet (wallet.cpp)\<close>

text \<open>
  \<^verbatim>\<open>std::map<std::string, double>\<close> keeps its entries ordered by key, one entry per key.
  It is a list of pairs in key order; \<open>map_find\<close> is \<^verbatim>\<open>find\<close> and \<open>map_assign\<close> is
  \<^verbatim>\<open>m[k] = v\<close>.
\<close>

type_synonym balances = "(string \<times> amount) list"

fun map_find :: "string \<Rightarrow> balances \<Rightarrow> amount option" where
  "map_find k [] = None"
| "map_find k ((k', v) # m) = (if k = k' then Some v else map_find k m)"

fun map_assign :: "string \<Rightarrow> amount \<Rightarrow> balances \<Rightarrow> balances" where
  "map_assign k v [] = [(k, v)]"
| "map_assign k v ((k', v') # m) =
     (if k = k' then (k, v) # m
      else if k < k' then (k, v) # (k', v') # m
      else (k', v') # map_assign k v m)"

record Wallet =
  m_walletPath :: string
  m_mainAddress :: string
  m_encryptedSeed :: string
  m_balances :: balances
  m_transactions :: "Transaction list"
  m_isInitialized :: bool
  m_isSynchronized :: bool

definition getBalance :: "string \<Rightarrow> Wallet \<Rightarrow> amount" where
  "getBalance tokenSymbol w =
     (case map_find tokenSymbol (m_balances w) of Some v \<Rightarrow> v | None \<Rightarrow> 0)"

text \<open>
  \<^verbatim>\<open>m_balances[tokenSymbol] -= amount\<close>: \<^verbatim>\<open>operator[]\<close> inserts 0.0 for a missing key
  before the subtraction, and the difference of the two doubles is rounded to a double.
\<close>

definition transfer ::
  "sys \<Rightarrow> string \<Rightarrow> amount \<Rightarrow> string \<Rightarrow> Wallet \<Rightarrow> bool \<times> Wallet \<times> event list" where
  "transfer S toAddress amt tokenSymbol w =
     (if \<not> m_isInitialized w then (False, w, [Log ERROR ''Wallet is not initialized''])
      else
        let warn = (if \<not> m_isSynchronized w
                    then [Log WARNING ''Wallet is not synchronized with the network'']
                    else []);
            balance = getBalance tokenSymbol w
        in if balance < amt
           then (False, w, warn @ [Log ERROR ''Insufficient balance for transfer''])
           else
             let (transaction, created) =
                   Transaction_new S (m_mainAddress w) toAddress amt tokenSymbol;
                 old = (case map_find tokenSymbol (m_balances w) of Some v \<Rightarrow> v | None \<Rightarrow> 0)
             in (True,
                 w\<lparr>m_balances := map_assign tokenSymbol (round_double (old - amt)) (m_balances w),
                   m_transactions := m_transactions w @ [transaction]\<rparr>,
                 warn @ created @
                 [Log INFO (''Transfer initiated: '' @ to_string_double S amt @ '' '' @
                            tokenSymbol @ '' to '' @ toAddress)]))"

definition DEV_TEAM_ADDRESS :: string where
  "DEV_TEAM_ADDRESS = ''LMTDEVTEAM123456789ABCDEFGHIJKLMNOPQRSTUVW''"

definition donate :: "sys \<Rightarrow> amount \<Rightarrow> Wallet \<Rightarrow> bool \<times> Wallet \<times> event list" where
  "donate S amt w = transfer S DEV_TEAM_ADDRESS amt ''LMT'' w"

definition SEED_WORDS :: "string list" where
  "SEED_WORDS =
    [''abandon'', ''ability'', ''able'', ''about'', ''above'', ''absent'', ''absorb'', ''abstract'', ''absurd'', ''abuse'',
     ''access'', ''accident'', ''account'', ''accuse'', ''achieve'', ''acid'', ''acoustic'', ''acquire'', ''across'', ''act'',
     ''action'', ''actor'', ''actress'', ''actual'', ''adapt'', ''add'', ''addict'', ''address'', ''adjust'', ''admit'',
     ''adult'', ''advance'', ''advice'', ''aerobic'', ''affair'', ''afford'', ''afraid'', ''again'', ''age'', ''agent'',
     ''agree'', ''ahead'', ''aim'', ''air'', ''airport'', ''aisle'', ''alarm'', ''album'', ''alcohol'', ''alert'',
     ''alien'', ''all'', ''alley'', ''allow'', ''almost'', ''alone'', ''alpha'', ''already'', ''also'', ''alter'',
     ''always'', ''amateur'', ''amazing'', ''among'', ''amount'', ''amused'', ''analyst'', ''anchor'', ''ancient'', ''anger'',
     ''angle'', ''angry'', ''animal'', ''ankle'', ''announce'', ''annual'', ''another'', ''answer'', ''antenna'', ''antique'',
     ''anxiety'', ''any'', ''apart'', ''apology'', ''appear'', ''apple'', ''approve'', ''april'', ''arch'', ''arctic'',
     ''area'', ''arena'', ''argue'', ''arm'', ''armed'', ''armor'', ''army'', ''around'', ''arrange'', ''arrest'',
     ''arrive'', ''arrow'', ''art'', ''artefact'', ''artist'', ''artwork'', ''ask'', ''aspect'', ''assault'', ''asset'',
     ''assist'', ''assume'', ''asthma'', ''athlete'', ''atom'', ''attack'', ''attend'', ''attitude'', ''attract'', ''auction'']"

text \<open>
  \<^verbatim>\<open>while (iss >> word) words.push_back(word)\<close>: the words of a string are its maximal
  runs of characters that are not white space (in the C locale: space, tab, line feed,
  vertical tab, form feed, carriage return). \<open>cur\<close> is the word read so far.
\<close>

definition isspace :: "char \<Rightarrow> bool" where
  "isspace c = (c \<in> set [CHR '' '', CHR 0x09, CHR 0x0A, CHR 0x0B, CHR 0x0C, CHR 0x0D])"

fun extract_words :: "string \<Rightarrow> string \<Rightarrow> string list" where
  "extract_words cur [] = (if cur = [] then [] else [cur])"
| "extract_words cur (c # cs) =
     (if isspace c then (if cur = [] then extract_words [] cs else cur # extract_words [] cs)
      else extract_words (cur @ [c]) cs)"

text \<open>
  The files the wallet reads and writes: \<open>contents\<close> gives the text stored under a path,
  \<open>writable p\<close> tells whether opening \<open>p\<close> for writing succeeds. Write errors after a
  successful open are not modelled.
\<close>

record filesys =
  contents :: "string \<Rightarrow> string option"
  writable :: "string \<Rightarrow> bool"

definition balance_line :: "sys \<Rightarrow> string \<times> amount \<Rightarrow> string" where
  "balance_line S b = ''BALANCE:'' @ fst b @ '':'' @ put_double S (snd b) @ [CHR 0x0A]"

definition wallet_file :: "sys \<Rightarrow> Wallet \<Rightarrow> string" where
  "wallet_file S w =
     ''LUMINA_WALLET_DATA'' @ [CHR 0x0A] @
     ''ADDRESS:'' @ m_mainAddress w @ [CHR 0x0A] @
     concat (map (balance_line S) (m_balances w))"

definition saveWallet :: "sys \<Rightarrow> Wallet \<Rightarrow> filesys \<Rightarrow> bool \<times> filesys \<times> event list" where
  "saveWallet S w fs =
     (if \<not> writable fs (m_walletPath w)
      then (False, fs,
            [Log ERROR (''Failed to open wallet file for writing: '' @ m_walletPath w)])
      else (True,
            fs\<lparr>contents := (contents fs)(m_walletPath w \<mapsto> wallet_file S w)\<rparr>,
            [Log INFO (''Wallet saved to '' @ m_walletPath w)]))"

text \<open>
  \<^verbatim>\<open>std::getline\<close> called until it fails: the lines of a text, a line ending at a line
  feed or at the end of the text; nothing is read after a final line feed.
\<close>

fun getlines :: "string \<Rightarrow> string \<Rightarrow> string list" where
  "getlines cur [] = (if cur = [] then [] else [cur])"
| "getlines cur (c # cs) =
     (if c = CHR 0x0A then cur # getlines [] cs else getlines (cur @ [c]) cs)"

fun find_idx :: "char \<Rightarrow> nat \<Rightarrow> string \<Rightarrow> nat option" where
  "find_idx c i [] = None"
| "find_idx c i (x # xs) = (if x = c then Some i else find_idx c (Suc i) xs)"

definition find_char :: "char \<Rightarrow> nat \<Rightarrow> string \<Rightarrow> nat option" where
  "find_char c pos s = find_idx c pos (drop pos s)"

text \<open>
  The \<^verbatim>\<open>while (std::getline(file, line))\<close> loop of \<^verbatim>\<open>loadWallet\<close>. The result is
  \<open>Inl (msg, w)\<close> when \<^verbatim>\<open>std::stod\<close> throws: the wallet \<open>w\<close> then keeps what the
  earlier lines stored.
\<close>

fun load_lines :: "sys \<Rightarrow> string list \<Rightarrow> Wallet \<Rightarrow> (string \<times> Wallet) + Wallet" where
  "load_lines S [] w = Inr w"
| "load_lines S (line # ls) w =
     (if take 8 line = ''ADDRESS:'' then load_lines S ls (w\<lparr>m_mainAddress := drop 8 line\<rparr>)
      else if take 8 line = ''BALANCE:'' then
        (case find_char CHR '':'' 8 line of
           None \<Rightarrow> load_lines S ls w
         | Some pos \<Rightarrow>
             (case stod S (drop (pos + 1) line) of
                Inl msg \<Rightarrow> Inl (msg, w)
              | Inr amt \<Rightarrow>
                  load_lines S ls
                    (w\<lparr>m_balances := map_assign (take (pos - 8) (drop 8 line)) amt (m_balances w)\<rparr>)))
      else load_lines S ls w)"

definition loadWallet :: "sys \<Rightarrow> Wallet \<Rightarrow> filesys \<Rightarrow> bool \<times> Wallet \<times> event list" where
  "loadWallet S w fs =
     (case contents fs (m_walletPath w) of
        None \<Rightarrow>
          (False, w, [Log ERROR (''Failed to open wallet file for reading: '' @ m_walletPath w)])
      | Some text \<Rightarrow>
          (case getlines [] text of
             [] \<Rightarrow> (False, w, [Log ERROR ''Invalid wallet file format''])
           | header # ls \<Rightarrow>
               if header \<noteq> ''LUMINA_WALLET_DATA''
               then (False, w, [Log ERROR ''Invalid wallet file format''])
               else
                 (case load_lines S ls w of
                    Inl (msg, w') \<Rightarrow> (False, w', [Log ERROR (''Failed to load wallet: '' @ msg)])
                  | Inr w' \<Rightarrow> (True, w', [Log INFO (''Wallet loaded from '' @ m_walletPath w)]))))"

definition Wallet_new :: "sys \<Rightarrow> string \<Rightarrow> string \<Rightarrow> filesys \<Rightarrow> Wallet \<times> event list" where
  "Wallet_new S walletPath password fs =
     (let w0 = \<lparr>m_walletPath = walletPath, m_mainAddress = [], m_encryptedSeed = [],
                m_balances = [], m_transactions = [],
                m_isInitialized = False, m_isSynchronized = False\<rparr>;
          (ok, w1, ev) = loadWallet S w0 fs
      in if \<not> ok then (w1, ev @ [Log INFO (''No existing wallet found at '' @ walletPath)])
         else (w1\<lparr>m_isInitialized := True\<rparr>,
               ev @ [Log INFO (''Wallet loaded successfully from '' @ walletPath)]))"

definition recoverFromSeed ::
  "sys \<Rightarrow> string \<Rightarrow> Wallet \<Rightarrow> filesys \<Rightarrow> bool \<times> Wallet \<times> filesys \<times> event list" where
  "recoverFromSeed S seedPhrase w fs =
     (if m_isInitialized w then (False, w, fs, [Log WARNING ''Wallet is already initialized''])
      else
        let words = extract_words [] seedPhrase in
        if length words \<noteq> 12
        then (False, w, fs,
              [Log ERROR ''Invalid seed phrase: must contain exactly 12 words''])
        else
          let w' = w\<lparr>m_mainAddress := ''LMT1234567890ABCDEFGHIJKLMNOPQRSTUVWXYZ'',
                     m_balances := map_assign ''LMT'' 0 (m_balances w),
                     m_isInitialized := True, m_isSynchronized := False\<rparr>;
              (ok, fs', ev) = saveWallet S w' fs
          in (ok, w', fs', ev))"

definition getSeedPhrase :: "string \<Rightarrow> Wallet \<Rightarrow> string \<times> event list" where
  "getSeedPhrase password w =
     (if \<not> m_isInitialized w then ([], [Log ERROR ''Wallet is not initialized''])
      else (''abandon ability able about above absent absorb abstract absurd abuse access accident'',
            []))"

definition encryptSeed :: "string \<Rightarrow> string \<Rightarrow> string" where
  "encryptSeed seed password = seed"

definition decryptSeed :: "string \<Rightarrow> string \<Rightarrow> string" where
  "decryptSeed encryptedSeed password = encryptedSeed"


subsection \<open>NetworkSync\<close>

text \<open>
  Block heights are \<^verbatim>\<open>uint64_t\<close>: 64-bit words, on which \<open>+\<close> wraps around. Whether a
  progress callback is installed is the flag \<open>m_callback\<close>; the callback itself is an
  observer outside the program, so each of its invocations is an event \<open>Callback\<close> with
  the two arguments passed, and it is taken not to call back into the synchroniser. The
  pause between two batches (\<^verbatim>\<open>sleep_for\<close>) is not modelled. The field
  \<^verbatim>\<open>m_status\<close> of the class is \<open>m_sync_status\<close> here, the name \<open>m_status\<close> being
  taken by the transaction's field.
\<close>

datatype SyncStatus = NOT_SYNCED | SYNCING | SYNCED

record NetworkSync =
  m_walletAddress :: string
  m_networkEndpoint :: string
  m_sync_status :: SyncStatus
  m_progress :: real
  m_latestBlockHeight :: "64 word"
  m_currentBlockHeight :: "64 word"
  m_isSyncing :: bool
  m_callback :: bool

text \<open>\<^verbatim>\<open>std::to_string\<close> on an unsigned integer: its decimal digits.\<close>

function to_string_nat :: "nat \<Rightarrow> string" where
  "to_string_nat n =
     (if n < 10 then [''0123456789'' ! n]
      else to_string_nat (n div 10) @ [''0123456789'' ! (n mod 10)])"
  by pat_completeness auto
termination
  by (relation "measure id") auto

definition to_string_u64 :: "64 word \<Rightarrow> string" where
  "to_string_u64 x = to_string_nat (unat x)"

text \<open>
  The constructor; \<open>configEndpoint\<close> is what the configuration holds under
  \<^verbatim>\<open>network_endpoint\<close> (empty when it holds nothing).
\<close>

definition NetworkSync_new :: "string \<Rightarrow> string \<Rightarrow> NetworkSync \<times> event list" where
  "NetworkSync_new walletAddress configEndpoint =
     (let s = \<lparr>m_walletAddress = walletAddress,
                m_networkEndpoint = ''https://node.luminachain.network'',
                m_sync_status = NOT_SYNCED, m_progress = 0,
                m_latestBlockHeight = 0, m_currentBlockHeight = 0,
                m_isSyncing = False, m_callback = False\<rparr>;
          ev = [Log INFO (''Network synchronizer initialized for wallet: '' @ walletAddress)]
      in if configEndpoint \<noteq> []
         then (s\<lparr>m_networkEndpoint := configEndpoint\<rparr>,
               ev @ [Log INFO (''Using network endpoint from config: '' @ configEndpoint)])
         else (s, ev))"

definition connectToNetwork :: "NetworkSync \<Rightarrow> bool \<times> NetworkSync \<times> event list" where
  "connectToNetwork s =
     (True, s, [Log INFO (''Connecting to network: '' @ m_networkEndpoint s)])"

text \<open>
  \<^verbatim>\<open>fetchLatestBlockHeight\<close> stores a fixed height, 12345. \<open>fetch_height h\<close> is the same
  function for a network that answers \<open>h\<close>.
\<close>

definition fetch_height :: "64 word \<Rightarrow> NetworkSync \<Rightarrow> bool \<times> NetworkSync \<times> event list" where
  "fetch_height h s =
     (True, s\<lparr>m_latestBlockHeight := h\<rparr>,
      [Log INFO (''Latest block height: '' @ to_string_u64 h)])"

definition fetchLatestBlockHeight :: "NetworkSync \<Rightarrow> bool \<times> NetworkSync \<times> event list" where
  "fetchLatestBlockHeight = fetch_height 12345"

text \<open>
  In \<^verbatim>\<open>processBlocks\<close> the progress is a \<^verbatim>\<open>float\<close> quotient: the current height is
  converted to \<^verbatim>\<open>float\<close> by the cast, the latest height by the usual arithmetic
  conversions, and the quotient is rounded to \<^verbatim>\<open>float\<close>.
\<close>

definition processBlocks ::
  "64 word \<Rightarrow> 64 word \<Rightarrow> NetworkSync \<Rightarrow> bool \<times> NetworkSync \<times> event list" where
  "processBlocks fromHeight toHeight s =
     (let s1 = s\<lparr>m_currentBlockHeight := toHeight\<rparr>;
          s2 = (if m_latestBlockHeight s1 > 0
                then s1\<lparr>m_progress :=
                         round_float (round_float (real (unat (m_currentBlockHeight s1))) /
                                      round_float (real (unat (m_latestBlockHeight s1))))\<rparr>
                else s1)
      in (True, s2,
          ProcessBlocks fromHeight toHeight #
          (if m_callback s2
           then [Callback (m_progress s2) (''Processed blocks up to '' @ to_string_u64 toHeight)]
           else [])))"

definition updateProgress :: "real \<Rightarrow> string \<Rightarrow> NetworkSync \<Rightarrow> NetworkSync \<times> event list" where
  "updateProgress progress message s =
     (let s1 = s\<lparr>m_progress := progress\<rparr>;
          ev = (if m_callback s1 then [Callback progress message] else [])
      in if progress \<ge> 1
         then (s1\<lparr>m_sync_status := SYNCED, m_isSyncing := False\<rparr>,
               ev @ [Log INFO ''Synchronization completed''])
         else (s1, ev))"

definition batchSize :: "64 word" where
  "batchSize = 100"

text \<open>
  The \<^verbatim>\<open>for\<close> loop of \<^verbatim>\<open>simulateSync\<close>, entered with loop variable \<open>height\<close>, object
  \<open>s\<close> and the events \<open>ev\<close> so far. The result is \<open>None\<close> when the loop does not end.
\<close>

partial_function (option) sync_loop ::
  "64 word \<Rightarrow> NetworkSync \<Rightarrow> event list \<Rightarrow> (NetworkSync \<times> event list) option" where
  "sync_loop height s ev =
     (if height < m_latestBlockHeight s then
        (let toHeight = min (height + batchSize) (m_latestBlockHeight s);
             r = processBlocks height toHeight s;
             s' = fst (snd r);
             ev' = ev @ snd (snd r)
         in if \<not> m_isSyncing s' then Some (s', ev')
            else sync_loop (height + batchSize) s' ev')
      else Some (s, ev))"

declare sync_loop.simps [code]

definition simulateSync :: "NetworkSync \<Rightarrow> (NetworkSync \<times> event list) option" where
  "simulateSync s =
     (case sync_loop 0 (s\<lparr>m_currentBlockHeight := 0\<rparr>)
             [Log INFO ''Starting synchronization simulation''] of
        None \<Rightarrow> None
      | Some (s1, ev1) \<Rightarrow>
          if m_isSyncing s1 \<and> m_currentBlockHeight s1 \<ge> m_latestBlockHeight s1
          then (let (s2, ev2) = updateProgress 1 ''Synchronization completed'' s1
                in Some (s2, ev1 @ ev2))
          else Some (s1, ev1))"

text \<open>
  \<^verbatim>\<open>startSync\<close>, with the two network operations as parameters; \<open>callback\<close> tells
  whether a callback is passed. The code's own \<^verbatim>\<open>startSync\<close> is the instance with
  \<open>connectToNetwork\<close> and \<open>fetchLatestBlockHeight\<close>.
\<close>

definition startSync_with ::
  "(NetworkSync \<Rightarrow> bool \<times> NetworkSync \<times> event list) \<Rightarrow>
   (NetworkSync \<Rightarrow> bool \<times> NetworkSync \<times> event list) \<Rightarrow>
   bool \<Rightarrow> NetworkSync \<Rightarrow> (bool \<times> NetworkSync \<times> event list) option" where
  "startSync_with connect fetch callback s =
     (if m_isSyncing s
      then Some (False, s, [Log WARNING ''Synchronization is already in progress''])
      else
        let s1 = (if callback then s\<lparr>m_callback := True\<rparr> else s);
            (ok1, s2, ev1) = connect s1
        in if \<not> ok1
           then Some (False, s2, ev1 @ [Log ERROR ''Failed to connect to the network''])
           else
             let (ok2, s3, ev2) = fetch s2
             in if \<not> ok2
                then Some (False, s3,
                           ev1 @ ev2 @ [Log ERROR ''Failed to fetch latest block height''])
                else
                  (case simulateSync (s3\<lparr>m_sync_status := SYNCING, m_isSyncing := True\<rparr>) of
                     None \<Rightarrow> None
                   | Some (s4, ev3) \<Rightarrow> Some (True, s4, ev1 @ ev2 @ ev3)))"

definition startSync :: "bool \<Rightarrow> NetworkSync \<Rightarrow> (bool \<times> NetworkSync \<times> event list) option" where
  "startSync = startSync_with connectToNetwork fetchLatestBlockHeight"

definition stopSync :: "NetworkSync \<Rightarrow> bool \<times> NetworkSync \<times> event list" where
  "stopSync s =
     (if \<not> m_isSyncing s then (False, s, [Log WARNING ''Synchronization is not in progress''])
      else
        let s1 = (if m_sync_status s \<noteq> SYNCED then s\<lparr>m_sync_status := NOT_SYNCED\<rparr> else s)
        in (True, s1\<lparr>m_isSyncing := False\<rparr>, [Log INFO ''Synchronization stopped'']))"

subsection \<open>Reading the events, and example objects\<close>

text \<open>
  The batches handed to \<^verbatim>\<open>processBlocks\<close> and the arguments of the callback
  invocations, in the order of the events.
\<close>

fun batch_of :: "event \<Rightarrow> (64 word \<times> 64 word) list" where
  "batch_of (ProcessBlocks a b) = [(a, b)]"
| "batch_of _ = []"

definition batches :: "event list \<Rightarrow> (64 word \<times> 64 word) list" where
  "batches ev = concat (map batch_of ev)"

fun callback_of :: "event \<Rightarrow> (real \<times> string) list" where
  "callback_of (Callback p m) = [(p, m)]"
| "callback_of _ = []"

definition callbacks :: "event list \<Rightarrow> (real \<times> string) list" where
  "callbacks ev = concat (map callback_of ev)"

text \<open>
  A line of the wallet file without its line feed, and the entries of a balance map
  that the file format can carry: no colon or line feed in the token, no line feed in
  the number's text, and a text that \<^verbatim>\<open>std::stod\<close> reads back as the same number.
\<close>

definition balance_text :: "sys \<Rightarrow> string \<times> amount \<Rightarrow> string" where
  "balance_text S b = ''BALANCE:'' @ fst b @ '':'' @ put_double S (snd b)"

definition clean_entry :: "sys \<Rightarrow> string \<times> amount \<Rightarrow> bool" where
  "clean_entry S b =
     (CHR '':'' \<notin> set (fst b) \<and> CHR 0x0A \<notin> set (fst b) \<and>
      CHR 0x0A \<notin> set (put_double S (snd b)) \<and> stod S (put_double S (snd b)) = Inr (snd b))"

text \<open>
  Concrete objects on which the theorems below are instantiated. In \<open>example_sys\<close> the
  library functions are given on the few numbers used, as the C++ library renders and
  reads them; the clock value and the random digits are arbitrary.
\<close>

definition example_sys :: sys where
  "example_sys = \<lparr>time_now = 1700000000, random_hex = (\<lambda>i. i),
     to_string_double =
       (\<lambda>x. if x = 5 then ''5.000000'' else if x = - 5 then ''-5.000000''
            else if x = 0 then ''0.000000'' else if x = 50 then ''50.000000''
            else ''<double>''),
     put_double =
       (\<lambda>x. if x = 0 then ''0'' else if x = 5 then ''5'' else if x = 10 then ''10''
            else ''<double>''),
     stod =
       (\<lambda>s. if s = ''0'' then Inr 0 else if s = ''5'' then Inr 5
            else if s = ''10'' then Inr 10 else Inl ''stod'')\<rparr>"

definition example_wallet :: Wallet where
  "example_wallet = \<lparr>m_walletPath = ''wallet.dat'',
     m_mainAddress = ''LMT1234567890ABCDEFGHIJKLMNOPQRSTUVWXYZ'',
     m_encryptedSeed = [], m_balances = [(''LMT'', 10)], m_transactions = [],
     m_isInitialized = True, m_isSynchronized = False\<rparr>"

definition example_confirmed :: Transaction where
  "example_confirmed =
     fst (setStatus CONFIRMED (fst (Transaction_new example_sys ''addrA'' ''addrB'' 5 ''LMT'')))"

definition example_sync :: NetworkSync where
  "example_sync = fst (NetworkSync_new ''LMT1234567890ABCDEFGHIJKLMNOPQRSTUVWXYZ'' [])"

definition example_fs :: filesys where
  "example_fs = \<lparr>contents = (\<lambda>p. None), writable = (\<lambda>p. True)\<rparr>"

definition example_phrase :: string where
  "example_phrase = ''zebra zebra zebra zebra zebra zebra zebra zebra zebra zebra zebra zebra''"

section \<open>Properties\<close>

subsection \<open>Helper facts\<close>

lemma map_find_assign: "map_find k' (map_assign k v m) = (if k' = k then Some v else map_find k' m)"
  by (induction m) auto

text \<open>
  The number of binary digits, characterised by two powers of two, and the rounded
  values of the numbers that the examples below use.
\<close>

lemma bit_length_eq:
  "0 < b \<Longrightarrow> 2 ^ (b - 1) \<le> n \<Longrightarrow> n < 2 ^ b \<Longrightarrow> bit_length n = b"
proof (induction b arbitrary: n)
  case 0
  then show ?case by simp
next
  case (Suc b)
  from Suc.prems have pos: "n \<noteq> 0" by auto
  show ?case
  proof (cases "b = 0")
    case True
    with Suc.prems have "n = Suc 0" by simp
    then show ?thesis using True
      by (simp add: bit_length.simps [of "Suc 0"] bit_length.simps [of 0])
  next
    case False
    then obtain c where b: "b = Suc c" by (cases b) auto
    from Suc.prems b have "2 * 2 ^ c \<le> n" and "n < 2 * 2 ^ b" by simp_all
    then have "2 ^ (b - 1) \<le> n div 2" and "n div 2 < 2 ^ b"
      using b by simp_all
    with Suc.IH [of "n div 2"] False have "bit_length (n div 2) = b" by simp
    with pos show ?thesis by (simp add: bit_length.simps [of n])
  qed
qed


lemma round_double_15: "round_double 15 = 15"
proof -
  have "bit_length (nat \<lfloor>\<bar>15::real\<bar> * 2 ^ 1074\<rfloor>) = 1078"
    by (rule bit_length_eq) simp_all
  then show ?thesis
    by (simp add: round_double_def round_binary_def round_even_def Let_def)
qed


lemma round_float_100: "round_float 100 = 100"
proof -
  have "bit_length (nat \<lfloor>\<bar>100::real\<bar> * 2 ^ 149\<rfloor>) = 156"
    by (rule bit_length_eq) simp_all
  then show ?thesis
    by (simp add: round_float_def round_binary_def round_even_def Let_def)
qed

lemma round_float_200: "round_float 200 = 200"
proof -
  have "bit_length (nat \<lfloor>\<bar>200::real\<bar> * 2 ^ 149\<rfloor>) = 157"
    by (rule bit_length_eq) simp_all
  then show ?thesis
    by (simp add: round_float_def round_binary_def round_even_def Let_def)
qed

lemma round_float_250: "round_float 250 = 250"
proof -
  have "bit_length (nat \<lfloor>\<bar>250::real\<bar> * 2 ^ 149\<rfloor>) = 157"
    by (rule bit_length_eq) simp_all
  then show ?thesis
    by (simp add: round_float_def round_binary_def round_even_def Let_def)
qed

lemma round_float_1: "round_float 1 = 1"
proof -
  have "bit_length (nat \<lfloor>\<bar>1::real\<bar> * 2 ^ 149\<rfloor>) = 150"
    by (rule bit_length_eq) simp_all
  then show ?thesis
    by (simp add: round_float_def round_binary_def round_even_def Let_def)
qed

lemma round_float_two_fifths: "round_float (2 / 5) = 13421773 / 33554432"
proof -
  have "bit_length (nat \<lfloor>\<bar>2 / 5::real\<bar> * 2 ^ 149\<rfloor>) = 148"
    by (rule bit_length_eq) simp_all
  then show ?thesis
    by (simp add: round_float_def round_binary_def round_even_def Let_def)
qed

lemma round_float_four_fifths: "round_float (4 / 5) = 13421773 / 16777216"
proof -
  have "bit_length (nat \<lfloor>\<bar>4 / 5::real\<bar> * 2 ^ 149\<rfloor>) = 149"
    by (rule bit_length_eq) simp_all
  then show ?thesis
    by (simp add: round_float_def round_binary_def round_even_def Let_def)
qed

text \<open>
  Two known values as a check of the rounding: the two ties just above \<open>2\<^sup>2\<^sup>4\<close> in
  \<^verbatim>\<open>float\<close>, one rounded down and one rounded up in magnitude, each to the even
  neighbour.
\<close>

lemma round_float_tie_down: "round_float 16777217 = 16777216"
proof -
  have "bit_length (nat \<lfloor>\<bar>16777217::real\<bar> * 2 ^ 149\<rfloor>) = 174"
    by (rule bit_length_eq) simp_all
  then show ?thesis
    by (simp add: round_float_def round_binary_def round_even_def Let_def)
qed

lemma round_float_tie_up: "round_float (- 16777219) = - 16777220"
proof -
  have "bit_length (nat \<lfloor>\<bar>- 16777219::real\<bar> * 2 ^ 149\<rfloor>) = 174"
    by (rule bit_length_eq) simp_all
  then show ?thesis
    by (simp add: round_float_def round_binary_def round_even_def Let_def)
qed

lemma example_id: "generateId example_sys = ''TX-01234567-89ab-cdef-0123-456789abcdef''"
  by code_simp

lemma example_time: "time_now example_sys = 1700000000"
  by (simp add: example_sys_def)

lemma example_to_string: "to_string_double example_sys (- 5) = ''-5.000000''"
  by (simp add: example_sys_def)

lemma getBalance_map_assign:
  "getBalance t (w\<lparr>m_balances := map_assign k v (m_balances w), m_transactions := x\<rparr>) =
     (if t = k then v else getBalance t w)"
  by (simp add: getBalance_def map_find_assign)

lemma transfer_failure_unchanged:
  "\<not> fst (transfer S toAddress amt tokenSymbol w) \<Longrightarrow>
   fst (snd (transfer S toAddress amt tokenSymbol w)) = w"
  by (simp add: transfer_def Let_def split_def split: if_splits)

lemma batches_append: "batches (xs @ ys) = batches xs @ batches ys"
  by (simp add: batches_def)

lemma callbacks_append: "callbacks (xs @ ys) = callbacks xs @ callbacks ys"
  by (simp add: callbacks_def)

lemma sync_loop_done:
  "\<not> height < m_latestBlockHeight s \<Longrightarrow> sync_loop height s ev = Some (s, ev)"
  by (subst sync_loop.simps) simp

lemma sync_loop_step:
  "height < m_latestBlockHeight s \<Longrightarrow> m_isSyncing s \<Longrightarrow>
   sync_loop height s ev =
     sync_loop (height + batchSize)
       (fst (snd (processBlocks height (min (height + batchSize) (m_latestBlockHeight s)) s)))
       (ev @ snd (snd (processBlocks height (min (height + batchSize) (m_latestBlockHeight s)) s)))"
  by (subst sync_loop.simps) (simp add: Let_def processBlocks_def)

lemma to_string_100: "to_string_u64 100 = ''100''"
  by code_simp

lemma to_string_200: "to_string_u64 200 = ''200''"
  by code_simp

lemma to_string_250: "to_string_u64 250 = ''250''"
  by code_simp

lemma recoverFromSeed_wrong_length:
  "\<not> m_isInitialized w \<Longrightarrow> length (extract_words [] seedPhrase) \<noteq> 12 \<Longrightarrow>
   recoverFromSeed S seedPhrase w fs =
     (False, w, fs, [Log ERROR ''Invalid seed phrase: must contain exactly 12 words''])"
  by (simp add: recoverFromSeed_def)

lemma example_words: "extract_words [] example_phrase = replicate 12 ''zebra''"
  by (simp add: example_phrase_def isspace_def eval_nat_numeral)

lemma zebra_unknown: "''zebra'' \<notin> set SEED_WORDS"
  by (simp add: SEED_WORDS_def)

text \<open>
  Reading a wallet file never yields a token that contains a colon: the token of a
  \<^verbatim>\<open>BALANCE:\<close> line ends at the first colon after the prefix.
\<close>

lemma find_idx_prefix:
  "find_idx c i xs = Some pos \<Longrightarrow> i \<le> pos \<and> c \<notin> set (take (pos - i) xs)"
proof (induction xs arbitrary: i)
  case Nil
  then show ?case by simp
next
  case (Cons x xs)
  show ?case
  proof (cases "x = c")
    case True
    with Cons.prems show ?thesis by simp
  next
    case False
    with Cons.prems have "find_idx c (Suc i) xs = Some pos" by simp
    from Cons.IH [OF this] have "Suc i \<le> pos" and "c \<notin> set (take (pos - Suc i) xs)"
      by simp_all
    moreover from \<open>Suc i \<le> pos\<close> have "pos - i = Suc (pos - Suc i)"
      by simp
    ultimately show ?thesis using False
      by simp
  qed
qed

lemma find_char_token:
  "find_char c 8 line = Some pos \<Longrightarrow> c \<notin> set (take (pos - 8) (drop 8 line))"
  unfolding find_char_def by (drule find_idx_prefix) simp

lemma load_lines_tokens:
  "map_find k (m_balances (case load_lines S ls w of Inl (msg, x) \<Rightarrow> x | Inr x \<Rightarrow> x)) \<noteq> None \<Longrightarrow>
   map_find k (m_balances w) \<noteq> None \<or> CHR '':'' \<notin> set k"
proof (induction ls arbitrary: w)
  case Nil
  then show ?case by simp
next
  case (Cons line ls)
  show ?case
  proof (cases "take 8 line = ''ADDRESS:''")
    case True
    with Cons.prems Cons.IH [of "w\<lparr>m_mainAddress := drop 8 line\<rparr>"] show ?thesis
      by simp
  next
    case no_address: False
    show ?thesis
    proof (cases "take 8 line = ''BALANCE:''")
      case False
      with no_address Cons.prems Cons.IH [of w] show ?thesis by simp
    next
      case balance: True
      show ?thesis
      proof (cases "find_char CHR '':'' 8 line")
        case None
        with no_address balance Cons.prems Cons.IH [of w] show ?thesis by simp
      next
        case (Some pos)
        note token = find_char_token [OF Some]
        show ?thesis
        proof (cases "stod S (drop (pos + 1) line)")
          case (Inl msg)
          with no_address balance Some Cons.prems show ?thesis by simp
        next
          case (Inr amt)
          let ?w = "w\<lparr>m_balances := map_assign (take (pos - 8) (drop 8 line)) amt (m_balances w)\<rparr>"
          from no_address balance Some Inr Cons.prems
          have "map_find k (m_balances (case load_lines S ls ?w of Inl (msg, x) \<Rightarrow> x | Inr x \<Rightarrow> x))
                  \<noteq> None"
            by simp
          from Cons.IH [OF this] token show ?thesis
            by (auto simp: map_find_assign split: if_splits)
        qed
      qed
    qed
  qed
qed

lemma loadWallet_tokens:
  "map_find k (m_balances (fst (snd (loadWallet S w fs)))) \<noteq> None \<Longrightarrow>
   map_find k (m_balances w) \<noteq> None \<or> CHR '':'' \<notin> set k"
proof -
  assume found: "map_find k (m_balances (fst (snd (loadWallet S w fs)))) \<noteq> None"
  have "fst (snd (loadWallet S w fs)) = w \<or>
        (\<exists>ls. fst (snd (loadWallet S w fs)) =
               (case load_lines S ls w of Inl (msg, x) \<Rightarrow> x | Inr x \<Rightarrow> x))"
  proof (cases "contents fs (m_walletPath w)")
    case None
    then show ?thesis by (simp add: loadWallet_def)
  next
    case (Some body)
    show ?thesis
    proof (cases "getlines [] body")
      case Nil
      with Some show ?thesis by (simp add: loadWallet_def)
    next
      case (Cons header ls)
      show ?thesis
      proof (cases "header = ''LUMINA_WALLET_DATA''")
        case False
        with Some Cons show ?thesis by (simp add: loadWallet_def)
      next
        case True
        with Some Cons have "fst (snd (loadWallet S w fs)) =
               (case load_lines S ls w of Inl (msg, x) \<Rightarrow> x | Inr x \<Rightarrow> x)"
          by (simp add: loadWallet_def split: sum.splits prod.splits)
        then show ?thesis by blast
      qed
    qed
  qed
  then show ?thesis
  proof
    assume "fst (snd (loadWallet S w fs)) = w"
    with found show ?thesis by simp
  next
    assume "\<exists>ls. fst (snd (loadWallet S w fs)) =
               (case load_lines S ls w of Inl (msg, x) \<Rightarrow> x | Inr x \<Rightarrow> x)"
    then obtain ls where "fst (snd (loadWallet S w fs)) =
               (case load_lines S ls w of Inl (msg, x) \<Rightarrow> x | Inr x \<Rightarrow> x)" ..
    with found load_lines_tokens [of k S ls w] show ?thesis by simp
  qed
qed

lemma Wallet_new_tokens:
  "map_find k (m_balances (fst (Wallet_new S walletPath password fs))) \<noteq> None \<Longrightarrow>
   CHR '':'' \<notin> set k"
proof -
  define w0 where
    "w0 = \<lparr>m_walletPath = walletPath, m_mainAddress = [], m_encryptedSeed = [],
            m_balances = [], m_transactions = [],
            m_isInitialized = False, m_isSynchronized = False\<rparr>"
  assume found: "map_find k (m_balances (fst (Wallet_new S walletPath password fs))) \<noteq> None"
  have "m_balances (fst (Wallet_new S walletPath password fs)) =
        m_balances (fst (snd (loadWallet S w0 fs)))"
    by (simp add: Wallet_new_def Let_def split_def w0_def)
  with found have "map_find k (m_balances (fst (snd (loadWallet S w0 fs)))) \<noteq> None"
    by simp
  from loadWallet_tokens [OF this] show ?thesis
    by (simp add: w0_def)
qed

text \<open>
  Saving and loading again, for a wallet whose address has no line feed and whose
  balance entries the file format can carry: the wallet constructed from the saved file
  is initialized and has the same address and the same balance under every token.
\<close>

lemma getlines_append:
  "CHR 0x0A \<notin> set l \<Longrightarrow> getlines cur (l @ rest) = getlines (cur @ l) rest"
  by (induction l arbitrary: cur) auto

lemma getlines_balances:
  "list_all (clean_entry S) bs \<Longrightarrow>
   getlines [] (concat (map (balance_line S) bs)) = map (balance_text S) bs"
  by (induction bs)
     (simp_all add: clean_entry_def balance_line_def balance_text_def getlines_append)

lemma find_idx_first:
  "c \<notin> set xs \<Longrightarrow> find_idx c i (xs @ c # ys) = Some (i + length xs)"
  by (induction xs arbitrary: i) auto

lemma load_lines_balances:
  "list_all (clean_entry S) bs \<Longrightarrow>
   load_lines S (map (balance_text S) bs) w =
     Inr (w\<lparr>m_balances := fold (\<lambda>b. map_assign (fst b) (snd b)) bs (m_balances w)\<rparr>)"
proof (induction bs arbitrary: w)
  case Nil
  then show ?case by simp
next
  case (Cons b bs)
  then have clean: "CHR '':'' \<notin> set (fst b)" and parses: "stod S (put_double S (snd b)) = Inr (snd b)"
    by (simp_all add: clean_entry_def)
  have pos: "find_char CHR '':'' 8 (balance_text S b) = Some (8 + length (fst b))"
    using find_idx_first [OF clean, of 8 "put_double S (snd b)"]
    by (simp add: find_char_def balance_text_def)
  have prefix: "take 8 (balance_text S b) = ''BALANCE:''"
    by (simp add: balance_text_def)
  have token: "take (length (fst b)) (drop 8 (balance_text S b)) = fst b"
    by (simp add: balance_text_def)
  have split_line: "balance_text S b = (''BALANCE:'' @ fst b @ '':'') @ put_double S (snd b)"
    by (simp add: balance_text_def)
  have split_at: "9 + length (fst b) = length (''BALANCE:'' @ fst b @ '':'')"
    by simp
  have number: "drop (9 + length (fst b)) (balance_text S b) = put_double S (snd b)"
    unfolding split_line split_at by (metis append_eq_conv_conj)
  from Cons have "list_all (clean_entry S) bs" by simp
  note IH = Cons.IH [OF this]
  show ?case
    by (simp add: pos prefix token number parses IH del: One_nat_def)
qed

lemma map_find_fold:
  "distinct (map fst bs) \<Longrightarrow>
   map_find k (fold (\<lambda>b. map_assign (fst b) (snd b)) bs m) =
     (case map_find k bs of Some v \<Rightarrow> Some v | None \<Rightarrow> map_find k m)"
proof (induction bs arbitrary: m)
  case Nil
  then show ?case by simp
next
  case (Cons b bs)
  obtain k0 v0 where b: "b = (k0, v0)" by (cases b)
  from Cons.prems b have "k0 \<notin> fst ` set bs" and d: "distinct (map fst bs)"
    by auto
  then have none: "map_find k0 bs = None"
    by (induction bs) auto
  show ?case
    using Cons.IH [OF d] none by (simp add: b map_find_assign split: option.splits)
qed

lemma save_load_roundtrip_clean:
  assumes open_ok: "writable fs (m_walletPath w)"
    and address: "CHR 0x0A \<notin> set (m_mainAddress w)"
    and entries: "list_all (clean_entry S) (m_balances w)"
    and keys: "distinct (map fst (m_balances w))"
  shows "(let (ok, fs', ev) = saveWallet S w fs;
              w' = fst (Wallet_new S (m_walletPath w) password fs')
          in ok \<and> m_isInitialized w' \<and> m_mainAddress w' = m_mainAddress w
             \<and> (\<forall>k. map_find k (m_balances w') = map_find k (m_balances w)))"
proof -
  define w0 where
    "w0 = \<lparr>m_walletPath = m_walletPath w, m_mainAddress = [], m_encryptedSeed = [],
            m_balances = [], m_transactions = [],
            m_isInitialized = False, m_isSynchronized = False\<rparr>"
  define fs' where "fs' = fs\<lparr>contents := (contents fs)(m_walletPath w \<mapsto> wallet_file S w)\<rparr>"
  have saved: "saveWallet S w fs = (True, fs', [Log INFO (''Wallet saved to '' @ m_walletPath w)])"
    using open_ok by (simp add: saveWallet_def fs'_def)
  have lines: "getlines [] (wallet_file S w) =
      ''LUMINA_WALLET_DATA'' # (''ADDRESS:'' @ m_mainAddress w) #
      map (balance_text S) (m_balances w)"
    using address
    by (simp add: wallet_file_def getlines_append getlines_balances [OF entries])
  have loaded: "loadWallet S w0 fs' =
      (True,
       w0\<lparr>m_mainAddress := m_mainAddress w,
          m_balances := fold (\<lambda>b. map_assign (fst b) (snd b)) (m_balances w) []\<rparr>,
       [Log INFO (''Wallet loaded from '' @ m_walletPath w)])"
    by (simp add: loadWallet_def fs'_def lines load_lines_balances [OF entries] w0_def)
  have "map_find k (fold (\<lambda>b. map_assign (fst b) (snd b)) (m_balances w) []) =
        map_find k (m_balances w)" for k
    by (simp add: map_find_fold [OF keys] split: option.splits)
  then show ?thesis
    using loaded by (simp add: saved Wallet_new_def w0_def [symmetric])
qed

lemma save_load_roundtrip_example:
  "(let (ok, fs', ev) = saveWallet example_sys example_wallet example_fs;
        w' = fst (Wallet_new example_sys ''wallet.dat'' ''pw'' fs')
    in ok \<and> m_isInitialized w' \<and> m_mainAddress w' = m_mainAddress example_wallet
       \<and> getBalance ''LMT'' w' = 10)"
proof -
  have "writable example_fs (m_walletPath example_wallet)"
    and "CHR 0x0A \<notin> set (m_mainAddress example_wallet)"
    and "list_all (clean_entry example_sys) (m_balances example_wallet)"
    and "distinct (map fst (m_balances example_wallet))"
    by (simp_all add: example_fs_def example_wallet_def clean_entry_def example_sys_def)
  from save_load_roundtrip_clean [OF this, of "''pw''"] show ?thesis
    by (simp add: Let_def split_def getBalance_def) (simp add: example_wallet_def)
qed

text \<open>
  \<^verbatim>\<open>transfer\<close> goes through whenever the balance is not below the amount, whatever the
  sign of the amount.
\<close>

lemma transfer_accepted:
  "m_isInitialized w \<Longrightarrow> \<not> getBalance tokenSymbol w < amt \<Longrightarrow>
   fst (transfer S toAddress amt tokenSymbol w) \<and>
   getBalance tokenSymbol (fst (snd (transfer S toAddress amt tokenSymbol w))) =
     round_double (getBalance tokenSymbol w - amt)"
  by (simp add: transfer_def Let_def split_def getBalance_map_assign) (simp add: getBalance_def)

text \<open>
  The loop of \<^verbatim>\<open>simulateSync\<close>. As long as the latest height is at most
  \<open>2\<^sup>6\<^sup>4 - 16\<close> (the largest multiple of 100 below \<open>2\<^sup>6\<^sup>4\<close>) the loop variable never
  wraps around: entered at \<open>100 * k\<close> the loop ends, having processed the batches
  \<open>k, k + 1, \<dots>\<close> up to the last one.
\<close>

lemma unat_hundred:
  "k \<le> 184467440737095516 \<Longrightarrow> unat (word_of_nat (100 * k) :: 64 word) = 100 * k"
  by (rule of_nat_inverse [OF refl]) simp

lemma ceil_bound:
  "l \<le> 18446744073709551600 \<Longrightarrow> (l + 99) div 100 \<le> (184467440737095516::nat)"
  by arith

lemma below_ceil: "k < (l + 99) div 100 \<Longrightarrow> 100 * k < (l::nat)"
  by arith

lemma at_ceil: "l \<le> 100 * ((l + 99) div 100)" for l :: nat
  by arith

lemma min_hundred:
  assumes "k \<le> 184467440737095516"
  shows "min (word_of_nat (100 * k)) (L :: 64 word) = word_of_nat (min (100 * k) (unat L))"
proof (cases "100 * k \<le> unat L")
  case True
  then have "(word_of_nat (100 * k) :: 64 word) \<le> L"
    unfolding word_le_nat_alt unat_hundred [OF assms] .
  with True show ?thesis by (simp add: min_def)
next
  case False
  then have "\<not> (word_of_nat (100 * k) :: 64 word) \<le> L"
    unfolding word_le_nat_alt unat_hundred [OF assms] .
  with False show ?thesis by (simp add: min_def)
qed

lemma sync_loop_batches:
  fixes L :: "64 word"
  assumes bound: "unat L \<le> 18446744073709551600"
  shows "m_latestBlockHeight s = L \<Longrightarrow> m_isSyncing s \<Longrightarrow> k \<le> (unat L + 99) div 100 \<Longrightarrow>
    \<exists>s' ev'. sync_loop (word_of_nat (100 * k)) s ev = Some (s', ev')
      \<and> batches ev' = batches ev @
           map (\<lambda>i. (word_of_nat (100 * i), word_of_nat (min (100 * i + 100) (unat L))))
             [k..<(unat L + 99) div 100]
      \<and> m_isSyncing s' \<and> m_latestBlockHeight s' = L
      \<and> m_currentBlockHeight s' =
          (if k < (unat L + 99) div 100 then L else m_currentBlockHeight s)"
proof (induction "(unat L + 99) div 100 - k" arbitrary: k s ev)
  case 0
  then have k: "k = (unat L + 99) div 100" by simp
  have kb: "k \<le> 184467440737095516" using ceil_bound [OF bound] k by simp
  have "unat L \<le> 100 * k" using at_ceil k by simp
  then have "\<not> word_of_nat (100 * k) < m_latestBlockHeight s"
    unfolding "0.prems"(1) word_less_nat_alt unat_hundred [OF kb] by simp
  then have "sync_loop (word_of_nat (100 * k)) s ev = Some (s, ev)"
    by (rule sync_loop_done)
  with k "0.prems" show ?case by simp
next
  case (Suc d)
  let ?n = "(unat L + 99) div 100"
  from Suc.hyps(2) have lt: "k < ?n" by simp
  have kb: "Suc k \<le> 184467440737095516" using ceil_bound [OF bound] lt by simp
  then have kb': "k \<le> 184467440737095516" by simp
  have below: "100 * k < unat L" using below_ceil [OF lt] .
  have less: "word_of_nat (100 * k) < m_latestBlockHeight s"
    using below unfolding Suc.prems(1) word_less_nat_alt unat_hundred [OF kb'] .
  have next_height: "(word_of_nat (100 * k) :: 64 word) + batchSize = word_of_nat (100 * Suc k)"
    by (simp add: batchSize_def)
  define toHeight where "toHeight = min (word_of_nat (100 * k) + batchSize) L"
  have suc: "100 * Suc k = 100 * k + 100"
    by simp
  have "toHeight = min (word_of_nat (100 * Suc k)) L"
    by (simp only: toHeight_def next_height)
  also have "\<dots> = word_of_nat (min (100 * Suc k) (unat L))"
    by (rule min_hundred [OF kb])
  also have "\<dots> = word_of_nat (min (100 * k + 100) (unat L))"
    by (simp only: suc)
  finally have toHeight: "toHeight = word_of_nat (min (100 * k + 100) (unat L))" .
  define s1 where "s1 = fst (snd (processBlocks (word_of_nat (100 * k)) toHeight s))"
  define ev1 where "ev1 = ev @ snd (snd (processBlocks (word_of_nat (100 * k)) toHeight s))"
  have step: "sync_loop (word_of_nat (100 * k)) s ev = sync_loop (word_of_nat (100 * Suc k)) s1 ev1"
    using sync_loop_step [OF less Suc.prems(2), of ev]
    by (simp only: s1_def ev1_def toHeight_def Suc.prems(1) next_height [symmetric])
  have s1_latest: "m_latestBlockHeight s1 = L"
    and s1_sync: "m_isSyncing s1"
    and s1_cur: "m_currentBlockHeight s1 = toHeight"
    using Suc.prems(1,2) by (simp_all add: s1_def processBlocks_def Let_def)
  have ev1_batches: "batches ev1 = batches ev @ [(word_of_nat (100 * k), toHeight)]"
    by (simp add: ev1_def processBlocks_def Let_def batches_def)
  have d: "d = ?n - Suc k" using Suc.hyps(2) by simp
  have le: "Suc k \<le> ?n" using lt by simp
  from Suc.hyps(1) [OF d s1_latest s1_sync le, of ev1]
  obtain s' ev' where
    run: "sync_loop (word_of_nat (100 * Suc k)) s1 ev1 = Some (s', ev')"
    and bs: "batches ev' = batches ev1 @
           map (\<lambda>i. (word_of_nat (100 * i), word_of_nat (min (100 * i + 100) (unat L))))
             [Suc k..<?n]"
    and rest: "m_isSyncing s'" "m_latestBlockHeight s' = L"
    and cur: "m_currentBlockHeight s' = (if Suc k < ?n then L else m_currentBlockHeight s1)"
    by blast
  have last: "\<not> Suc k < ?n \<Longrightarrow> toHeight = L"
  proof -
    assume "\<not> Suc k < ?n"
    with le have "Suc k = ?n" by simp
    then have "unat L \<le> 100 * k + 100" using at_ceil [of "unat L"] by simp
    then show "toHeight = L" by (simp add: toHeight min_def)
  qed
  have "m_currentBlockHeight s' = L"
    using cur last s1_cur by (cases "Suc k < ?n") simp_all
  moreover have "batches ev' = batches ev @
           map (\<lambda>i. (word_of_nat (100 * i), word_of_nat (min (100 * i + 100) (unat L))))
             [k..<?n]"
    using bs ev1_batches lt by (simp add: upt_conv_Cons toHeight)
  ultimately show ?case using step run rest lt by simp
qed

lemma simulateSync_batches:
  fixes L :: "64 word"
  assumes bound: "unat L \<le> 18446744073709551600"
    and latest: "m_latestBlockHeight s = L" and syncing: "m_isSyncing s"
  shows "\<exists>s' ev. simulateSync s = Some (s', ev)
      \<and> batches ev =
           map (\<lambda>i. (word_of_nat (100 * i), word_of_nat (min (100 * i + 100) (unat L))))
             [0..<(unat L + 99) div 100]
      \<and> m_currentBlockHeight s' = L \<and> m_sync_status s' = SYNCED \<and> \<not> m_isSyncing s'"
proof -
  let ?n = "(unat L + 99) div 100"
  let ?s0 = "s\<lparr>m_currentBlockHeight := 0\<rparr>"
  let ?ev0 = "[Log INFO ''Starting synchronization simulation'']"
  have "m_latestBlockHeight ?s0 = L" and "m_isSyncing ?s0" and "0 \<le> ?n"
    using latest syncing by simp_all
  from sync_loop_batches [OF bound this, of ?ev0]
  obtain s1 ev1 where
    run: "sync_loop 0 ?s0 ?ev0 = Some (s1, ev1)"
    and bs: "batches ev1 = batches ?ev0 @
           map (\<lambda>i. (word_of_nat (100 * i), word_of_nat (min (100 * i + 100) (unat L))))
             [0..<?n]"
    and rest: "m_isSyncing s1" "m_latestBlockHeight s1 = L"
    and cur: "m_currentBlockHeight s1 = (if 0 < ?n then L else m_currentBlockHeight ?s0)"
    by auto
  have "m_currentBlockHeight s1 = L"
  proof (cases "0 < ?n")
    case True
    with cur show ?thesis by simp
  next
    case False
    then have "unat L = 0" by simp
    then have "L = 0" by (simp add: unat_eq_0)
    with cur False show ?thesis by simp
  qed
  with run bs rest show ?thesis
    by (simp add: simulateSync_def updateProgress_def Let_def batches_def)
qed

text \<open>
  The code's own \<^verbatim>\<open>startSync\<close>, where the latest height is always 12345: 124 batches,
  from height 0, whatever the current height was.
\<close>

lemma startSync_code:
  assumes "\<not> m_isSyncing s"
  shows "\<exists>s' ev. startSync callback s = Some (True, s', ev)
      \<and> length (batches ev) = 124 \<and> hd (batches ev) = (0, 100)
      \<and> m_currentBlockHeight s' = 12345 \<and> m_sync_status s' = SYNCED"
proof -
  define s3 where
    "s3 = (if callback then s\<lparr>m_callback := True\<rparr> else s)
            \<lparr>m_latestBlockHeight := 12345, m_sync_status := SYNCING, m_isSyncing := True\<rparr>"
  have small: "unat (12345 :: 64 word) \<le> 18446744073709551600"
    by simp
  have "m_latestBlockHeight s3 = 12345" and "m_isSyncing s3"
    by (simp_all add: s3_def)
  from simulateSync_batches [OF small this]
  obtain s' ev where
    run: "simulateSync s3 = Some (s', ev)"
    and bs: "batches ev =
           map (\<lambda>i. (word_of_nat (100 * i), word_of_nat (min (100 * i + 100) (unat (12345 :: 64 word)))))
             [0..<(unat (12345 :: 64 word) + 99) div 100]"
    and rest: "m_currentBlockHeight s' = 12345" "m_sync_status s' = SYNCED"
    by blast
  have count: "(unat (12345 :: 64 word) + 99) div 100 = 124"
    by simp
  have "startSync callback s =
          Some (True, s',
                [Log INFO (''Connecting to network: '' @ m_networkEndpoint s),
                 Log INFO (''Latest block height: '' @ to_string_u64 12345)] @ ev)"
    using assms run
    by (simp add: startSync_def startSync_with_def connectToNetwork_def
          fetchLatestBlockHeight_def fetch_height_def s3_def)
  moreover have "length (batches ev) = 124"
    unfolding bs count by simp
  moreover have "hd (batches ev) = (0, 100)"
    unfolding bs count by (simp add: upt_rec [of 0] hd_map)
  ultimately show ?thesis using rest
    by (simp add: batches_def)
qed

subsection \<open>Wallet::transfer\<close>

text \<open>
  Claim C1 asks that \<open>transfer\<close> with an amount \<open>\<le> 0\<close> fails and changes nothing.
  \<^verbatim>\<open>Wallet::transfer\<close> has no check of the amount's sign: the only test is
  \<open>balance < amount\<close>. On the example wallet (10 LMT) a transfer of \<open>- 5\<close> returns
  \<open>True\<close>, raises the balance to 15 and appends a pending transaction of amount \<open>- 5\<close>;
  a transfer of 0 succeeds as well. In general the call goes through whenever the
  balance is not below the amount (\<open>transfer_accepted\<close>).
\<close>

theorem transfer_accepts_nonpositive_amount:
  "transfer example_sys ''addrB'' (- 5) ''LMT'' example_wallet =
     (True,
      example_wallet\<lparr>m_balances := [(''LMT'', 15)],
        m_transactions :=
          [\<lparr>m_id = ''TX-01234567-89ab-cdef-0123-456789abcdef'',
            m_fromAddress = ''LMT1234567890ABCDEFGHIJKLMNOPQRSTUVWXYZ'',
            m_toAddress = ''addrB'', m_amount = - 5, m_tokenSymbol = ''LMT'',
            m_timestamp = 1700000000, m_status = PENDING, m_signature = []\<rparr>]\<rparr>,
      [Log WARNING ''Wallet is not synchronized with the network'',
       Log INFO ''Created new transaction: TX-01234567-89ab-cdef-0123-456789abcdef'',
       Log INFO ''Transfer initiated: -5.000000 LMT to addrB''])
   \<and> fst (transfer example_sys ''addrB'' 0 ''LMT'' example_wallet)"
  by (simp add: transfer_def Transaction_new_def Let_def example_wallet_def getBalance_def
        example_id example_time example_to_string round_double_15)




text \<open>
  Claim C3: on an initialized wallet, a transfer of more than the token's balance
  returns \<open>False\<close>, its last log entry is the error "Insufficient balance for transfer",
  and the wallet it leaves is the wallet it found: balances, history and every other
  field.
\<close>

theorem transfer_insufficient:
  assumes "m_isInitialized w" and "amt > getBalance tokenSymbol w"
  shows "fst (transfer S toAddress amt tokenSymbol w) = False
         \<and> fst (snd (transfer S toAddress amt tokenSymbol w)) = w
         \<and> last (snd (snd (transfer S toAddress amt tokenSymbol w))) =
             Log ERROR ''Insufficient balance for transfer''"
  using assms by (simp add: transfer_def Let_def)

theorem transfer_insufficient_witness:
  "m_isInitialized example_wallet \<and> 50 > getBalance ''LMT'' example_wallet
   \<and> transfer example_sys ''addrB'' 50 ''LMT'' example_wallet =
      (False, example_wallet,
       [Log WARNING ''Wallet is not synchronized with the network'',
        Log ERROR ''Insufficient balance for transfer''])"
proof -
  have init: "m_isInitialized example_wallet"
    by (simp add: example_wallet_def)
  have more: "50 > getBalance ''LMT'' example_wallet"
    by (simp add: example_wallet_def getBalance_def)
  from transfer_insufficient [OF init more, of example_sys "''addrB''"]
  have "fst (snd (transfer example_sys ''addrB'' 50 ''LMT'' example_wallet)) = example_wallet"
    by simp
  moreover have "snd (snd (transfer example_sys ''addrB'' 50 ''LMT'' example_wallet)) =
       [Log WARNING ''Wallet is not synchronized with the network'',
        Log ERROR ''Insufficient balance for transfer'']"
    by (simp add: transfer_def example_wallet_def getBalance_def)
  moreover have "fst (transfer example_sys ''addrB'' 50 ''LMT'' example_wallet) = False"
    using transfer_insufficient [OF init more, of example_sys "''addrB''"] by simp
  ultimately show ?thesis using init more
    by (cases "transfer example_sys ''addrB'' 50 ''LMT'' example_wallet") simp
qed

subsection \<open>Wallet::getSeedPhrase\<close>

text \<open>
  Claim C4 asks that a wrong password is refused. \<^verbatim>\<open>getSeedPhrase\<close> never looks at its
  argument, and the constructor does not keep the password it is given: on an
  initialized wallet every password obtains the same twelve words, with no log entry.
  The second half of the claim holds: an uninitialized wallet answers the empty string
  and logs the error "Wallet is not initialized". \<^verbatim>\<open>decryptSeed\<close> returns its first
  argument whatever the password.
\<close>

theorem getSeedPhrase_ignores_password:
  "getSeedPhrase password (w\<lparr>m_isInitialized := True\<rparr>) =
     (''abandon ability able about above absent absorb abstract absurd abuse access accident'', [])
   \<and> getSeedPhrase password (w\<lparr>m_isInitialized := False\<rparr>) =
     ([], [Log ERROR ''Wallet is not initialized''])
   \<and> Wallet_new S walletPath password fs = Wallet_new S walletPath password' fs
   \<and> decryptSeed encryptedSeed password = encryptedSeed"
  by (simp add: getSeedPhrase_def Wallet_new_def decryptSeed_def)

subsection \<open>Wallet::recoverFromSeed\<close>

text \<open>
  Claim C5 asks that a phrase is refused unless it has exactly twelve words, each in
  \<open>SEED_WORDS\<close>. \<^verbatim>\<open>recoverFromSeed\<close> counts the words and never looks them up: the
  example phrase, twelve times "zebra", none of its words in the dictionary, is accepted
  on a wallet that was not initialized. The call returns \<open>True\<close>, sets the address and
  the LMT balance, marks the wallet initialized and writes the wallet file. A phrase
  with another number of words is refused and nothing changes
  (\<open>recoverFromSeed_wrong_length\<close>).
\<close>

theorem recoverFromSeed_accepts_unknown_words:
  "set (extract_words [] example_phrase) \<inter> set SEED_WORDS = {}
   \<and> \<not> m_isInitialized (fst (Wallet_new example_sys ''wallet.dat'' ''pw'' example_fs))
   \<and> (let (ok, w', fs', ev) =
            recoverFromSeed example_sys example_phrase
              (fst (Wallet_new example_sys ''wallet.dat'' ''pw'' example_fs)) example_fs
       in ok \<and> m_isInitialized w'
          \<and> m_mainAddress w' = ''LMT1234567890ABCDEFGHIJKLMNOPQRSTUVWXYZ''
          \<and> m_balances w' = [(''LMT'', 0)]
          \<and> contents fs' ''wallet.dat'' = Some (wallet_file example_sys w'))"
  using zebra_unknown
  by (simp add: example_words recoverFromSeed_def Wallet_new_def loadWallet_def
        saveWallet_def example_fs_def Let_def)

subsection \<open>Wallet::saveWallet and Wallet::loadWallet\<close>

text \<open>
  Claim C10 asks that saving a wallet and loading the file again gives the same
  balances. A wallet holding 5 units of the token "a:b" is saved; the wallet constructed
  from the file holds nothing under "a:b", whatever the text form of numbers is. The
  round trip holds for wallets without such tokens, as far as the text form of the
  amounts can be read back (\<open>save_load_roundtrip_clean\<close>).
\<close>

theorem save_load_loses_balance:
  "(let w = example_wallet\<lparr>m_balances := [(''a:b'', 5)]\<rparr>;
        (ok, fs', ev) = saveWallet S w example_fs;
        w' = fst (Wallet_new S (m_walletPath w) password fs')
    in ok \<and> contents fs' (m_walletPath w) = Some (wallet_file S w)
       \<and> getBalance ''a:b'' w = 5
       \<and> getBalance ''a:b'' w' = 0 \<and> map_find ''a:b'' (m_balances w') = None)"
proof -
  have "map_find ''a:b'' (m_balances (fst (Wallet_new S walletPath password fs))) = None"
    for walletPath fs
  proof (rule ccontr)
    assume "map_find ''a:b'' (m_balances (fst (Wallet_new S walletPath password fs))) \<noteq> None"
    from Wallet_new_tokens [OF this] show False by simp
  qed
  then show ?thesis
    by (simp add: Let_def split_def getBalance_def example_wallet_def saveWallet_def
          example_fs_def)
qed

subsection \<open>Transaction status and signature\<close>

text \<open>
  Claim C6 says that a confirmed or failed transaction keeps its status and cannot be
  signed. The confirmed example transaction is set back to pending, and to failed, by
  \<open>setStatus\<close>, and \<open>sign\<close> on it returns \<open>True\<close>.
\<close>

theorem status_not_terminal_counterexample:
  "m_status example_confirmed = CONFIRMED
   \<and> m_status (fst (setStatus PENDING example_confirmed)) = PENDING
   \<and> m_status (fst (setStatus FAILED example_confirmed)) = FAILED
   \<and> fst (sign ''key'' example_confirmed) = True"
  by (simp add: example_confirmed_def setStatus_def sign_def Transaction_new_def)

text \<open>
  Claim C6 as amended: \<open>setStatus\<close> stores the status it is given whatever the current
  one is and changes no other field; \<open>sign\<close> succeeds whatever the status is and
  leaves the status as it was. They are the only two operations that write a
  transaction.
\<close>

theorem setStatus_sign_any_status:
  "m_status (fst (setStatus st t)) = st
   \<and> fst (setStatus st t) = t\<lparr>m_status := st\<rparr>
   \<and> fst (sign privateKey t) = True
   \<and> m_status (fst (snd (sign privateKey t))) = m_status t"
  by (simp add: setStatus_def sign_def)

text \<open>
  Claim C7 asks for a signature that depends on the key and on every field, and for a
  verification that recomputes it. \<open>sign\<close> stores "SIGNATURE_" followed by the
  transaction id, the same for every key; \<open>verifySignature\<close> only tests that the stored
  signature starts with "SIGNATURE_", so it accepts a signed transaction whose amount
  and recipient were changed afterwards, and any forged text with that prefix. The one
  part that holds: an unsigned transaction is not verified.
\<close>

theorem signature_binds_nothing:
  "sign key1 t = sign key2 t
   \<and> verifySignature (fst (snd (sign key1 t))\<lparr>m_amount := amt', m_toAddress := toAddress'\<rparr>)
   \<and> verifySignature (t\<lparr>m_signature := ''SIGNATURE_'' @ forged\<rparr>)
   \<and> \<not> verifySignature (t\<lparr>m_signature := []\<rparr>)"
  by (simp add: sign_def verifySignature_def)

subsection \<open>NetworkSync::startSync\<close>

text \<open>
  Claim C8 as amended: when the network answers height 250, \<open>startSync\<close> with a
  callback that does not call back into the synchroniser, on any synchroniser that is
  not already syncing, returns \<open>True\<close> and invokes the callback four times. The first
  three invocations follow the batches ending at 100, 200 and 250; their progress
  values are the \<^verbatim>\<open>float\<close> quotients 100/250, 200/250 and 250/250, that is
  13421773/33554432 (the \<^verbatim>\<open>float\<close> nearest to 0.4), 13421773/16777216 (the
  \<^verbatim>\<open>float\<close> nearest to 0.8) and 1. The fourth, once the loop is over, has progress
  1 and the message "Synchronization completed". The run ends with status \<open>SYNCED\<close>,
  not syncing, progress 1 and current height 250.
\<close>

theorem startSync_250_callbacks:
  "map_option (\<lambda>(ok, s', ev). (ok, m_sync_status s', m_isSyncing s', m_progress s',
                                 m_currentBlockHeight s', callbacks ev))
     (startSync_with connectToNetwork (fetch_height 250) True (s\<lparr>m_isSyncing := False\<rparr>)) =
   Some (True, SYNCED, False, 1, 250,
         [(13421773 / 33554432, ''Processed blocks up to 100''),
          (13421773 / 16777216, ''Processed blocks up to 200''),
          (1, ''Processed blocks up to 250''),
          (1, ''Synchronization completed'')])"
  by (simp add: startSync_with_def connectToNetwork_def fetch_height_def simulateSync_def
        sync_loop_step sync_loop_done batchSize_def processBlocks_def updateProgress_def
        callbacks_def to_string_100 to_string_200 to_string_250
        round_float_100 round_float_200 round_float_250 round_float_1
        round_float_two_fifths round_float_four_fifths)

text \<open>
  Claim C8 says that the callback is invoked exactly three times. On the example
  synchroniser (current height 0) it is invoked four times, the fourth time with the
  message "Synchronization completed".
\<close>

theorem startSync_250_counterexample:
  "map_option (\<lambda>r. map snd (callbacks (snd (snd r))))
     (startSync_with connectToNetwork (fetch_height 250) True example_sync) =
   Some [''Processed blocks up to 100'', ''Processed blocks up to 200'',
         ''Processed blocks up to 250'', ''Synchronization completed'']
   \<and> map_option (\<lambda>r. length (callbacks (snd (snd r))))
     (startSync_with connectToNetwork (fetch_height 250) True example_sync) = Some 4
   \<and> m_currentBlockHeight example_sync = 0"
  by (simp add: example_sync_def NetworkSync_new_def
        startSync_with_def connectToNetwork_def fetch_height_def simulateSync_def
        sync_loop_step sync_loop_done batchSize_def processBlocks_def updateProgress_def
        callbacks_def to_string_100 to_string_200 to_string_250)

text \<open>
  Claim C9 says that the batches begin at the current height \<open>h\<close>. Started at current
  height 100 with latest height 250, \<open>startSync\<close> processes the batches (0, 100),
  (100, 200), (200, 250) and reports "Processed blocks up to 100" first: the run is the
  one from height 0.
\<close>

theorem startSync_restarts_counterexample:
  "m_currentBlockHeight (example_sync\<lparr>m_currentBlockHeight := 100\<rparr>) = 100
   \<and> map_option (\<lambda>r. (batches (snd (snd r)), callbacks (snd (snd r))))
        (startSync_with connectToNetwork (fetch_height 250) True
           (example_sync\<lparr>m_currentBlockHeight := 100\<rparr>)) =
      Some ([(0, 100), (100, 200), (200, 250)],
            [(13421773 / 33554432, ''Processed blocks up to 100''),
             (13421773 / 16777216, ''Processed blocks up to 200''),
             (1, ''Processed blocks up to 250''),
             (1, ''Synchronization completed'')])"
  by (simp add: example_sync_def NetworkSync_new_def
        startSync_with_def connectToNetwork_def fetch_height_def simulateSync_def
        sync_loop_step sync_loop_done batchSize_def processBlocks_def updateProgress_def
        callbacks_def batches_def to_string_100 to_string_200 to_string_250
        round_float_100 round_float_200 round_float_250 round_float_1
        round_float_two_fifths round_float_four_fifths)

text \<open>
  Claim C9 as amended: \<^verbatim>\<open>simulateSync\<close> sets the current height to 0 and starts its
  loop at 0, whatever the current height was. For every synchroniser that is not
  already syncing, a callback (if any) that does not call back into the synchroniser,
  and every latest height \<open>L \<le> 2\<^sup>6\<^sup>4 - 16\<close>, \<open>startSync\<close> returns
  \<open>True\<close>, the batches it processes are \<open>(0, 100), (100, 200), \<dots>\<close>, each of size
  100 but the last, which ends at \<open>L\<close>, and it ends with current height \<open>L\<close> and
  status \<open>SYNCED\<close>.
\<close>

theorem startSync_batches_from_zero:
  assumes "\<not> m_isSyncing s" and "unat L \<le> 18446744073709551600"
  shows "\<exists>s' ev. startSync_with connectToNetwork (fetch_height L) callback s = Some (True, s', ev)
      \<and> batches ev =
           map (\<lambda>i. (word_of_nat (100 * i), word_of_nat (min (100 * i + 100) (unat L))))
             [0..<(unat L + 99) div 100]
      \<and> m_currentBlockHeight s' = L \<and> m_sync_status s' = SYNCED \<and> \<not> m_isSyncing s'"
proof -
  define s3 where
    "s3 = (if callback then s\<lparr>m_callback := True\<rparr> else s)
            \<lparr>m_latestBlockHeight := L, m_sync_status := SYNCING, m_isSyncing := True\<rparr>"
  have "m_latestBlockHeight s3 = L" and "m_isSyncing s3"
    by (simp_all add: s3_def)
  from simulateSync_batches [OF assms(2) this]
  obtain s' ev where
    run: "simulateSync s3 = Some (s', ev)"
    and bs: "batches ev =
           map (\<lambda>i. (word_of_nat (100 * i), word_of_nat (min (100 * i + 100) (unat L))))
             [0..<(unat L + 99) div 100]"
    and rest: "m_currentBlockHeight s' = L" "m_sync_status s' = SYNCED" "\<not> m_isSyncing s'"
    by blast
  have "startSync_with connectToNetwork (fetch_height L) callback s =
          Some (True, s',
                [Log INFO (''Connecting to network: '' @ m_networkEndpoint s),
                 Log INFO (''Latest block height: '' @ to_string_u64 L)] @ ev)"
    using assms(1) run
    by (simp add: startSync_with_def connectToNetwork_def fetch_height_def s3_def)
  with bs rest show ?thesis
    by (simp add: batches_def)
qed

theorem startSync_batches_from_zero_witness:
  "\<not> m_isSyncing (example_sync\<lparr>m_currentBlockHeight := 200\<rparr>)
   \<and> unat (250 :: 64 word) \<le> 18446744073709551600
   \<and> map_option (\<lambda>r. batches (snd (snd r)))
        (startSync_with connectToNetwork (fetch_height 250) False
           (example_sync\<lparr>m_currentBlockHeight := 200\<rparr>)) =
      Some [(0, 100), (100, 200), (200, 250)]"
proof -
  have idle: "\<not> m_isSyncing (example_sync\<lparr>m_currentBlockHeight := 200\<rparr>)"
    by (simp add: example_sync_def NetworkSync_new_def)
  have small: "unat (250 :: 64 word) \<le> 18446744073709551600"
    by simp
  have "[0..<(unat (250 :: 64 word) + 99) div 100] = [0, 1, 2]"
    by (simp add: upt_rec)
  with startSync_batches_from_zero [OF idle small, of False]
  show ?thesis using idle small by auto
qed

end
